theory Spec2Isabelle
  imports Complex_Main
begin

section \<open>The memory manager: \<^verbatim>\<open>acestep/memory_manager.py\<close>\<close>

text \<open>
  Memory sizes are Python floats holding gigabytes and times are Python floats holding
  seconds; both are modelled as \<^typ>\<open>real\<close>, so a comparison or a subtraction is the exact
  one. Python's unbounded ints are \<^typ>\<open>int\<close>.
\<close>

subsection \<open>Module constants and the memory telemetry\<close>

definition MIN_FREE_RAM_GB :: real where
  "MIN_FREE_RAM_GB = 5"

definition DEFAULT_MEMORY_LIMIT_GB :: real where
  "DEFAULT_MEMORY_LIMIT_GB = 4"

text \<open>The dictionary returned by \<^verbatim>\<open>get_system_memory_info\<close>.\<close>

record mem_info =
  total_gb :: real
  available_gb :: real
  used_gb :: real
  percent_used :: real
  free_gb :: real

text \<open>
  The host the manager runs on. \<^verbatim>\<open>get_system_memory_info\<close> asks the operating system
  each time it is called, so two calls may see different values: \<open>probe h n\<close> is what
  the \<open>n\<close>-th call on this host returns and \<open>probes h\<close> counts the calls made so far.
  \<open>trace h\<close> records, oldest first, the reclaim routines that have run and the entries
  into a protected region.
\<close>

datatype effect =
    GarbageCollected        \<comment> \<open>the \<^verbatim>\<open>gc.collect\<close> passes of \<^verbatim>\<open>force_memory_cleanup\<close>\<close>
  | ForceCleanupCalled      \<comment> \<open>\<^verbatim>\<open>force_memory_cleanup\<close> was called\<close>
  | EmergencyCleanup        \<comment> \<open>\<^verbatim>\<open>emergency_memory_cleanup\<close> ran\<close>
  | RegionEntered           \<comment> \<open>\<^verbatim>\<open>generation_context\<close> reached its \<^verbatim>\<open>yield\<close>\<close>

record host =
  probe :: "nat \<Rightarrow> mem_info"
  probes :: nat
  trace :: "effect list"

definition get_system_memory_info :: "host \<Rightarrow> mem_info \<times> host" where
  "get_system_memory_info h = (probe h (probes h), h\<lparr>probes := Suc (probes h)\<rparr>)"

text \<open>
  \<^verbatim>\<open>emergency_memory_cleanup\<close>: collect garbage, clear the CUDA cache (its failures are
  caught), read the memory again and report whether the fresh reading reaches the module
  constant.
\<close>

definition emergency_memory_cleanup :: "host \<Rightarrow> bool \<times> host" where
  "emergency_memory_cleanup h =
     (let h1 = h\<lparr>trace := trace h @ [EmergencyCleanup]\<rparr>;
          (mem, h2) = get_system_memory_info h1
      in (available_gb mem \<ge> MIN_FREE_RAM_GB, h2))"

subsection \<open>MemoryConfig\<close>

record MemoryConfig =
  max_memory_gb :: real
  min_free_ram_gb :: real
  gpu_memory_fraction :: real
  max_duration_seconds :: int
  max_batch_size :: int
  offload_to_cpu :: bool
  offload_dit_to_cpu :: bool
  enable_lm :: bool
  aggressive_gc :: bool
  clear_cuda_cache :: bool
  pre_check_memory :: bool
  warning_threshold_gb :: real
  critical_threshold_gb :: real

text \<open>The field defaults of the dataclass, before \<^verbatim>\<open>__post_init__\<close> runs.\<close>

definition MemoryConfig_defaults :: MemoryConfig where
  "MemoryConfig_defaults =
     \<lparr> max_memory_gb = DEFAULT_MEMORY_LIMIT_GB,
       min_free_ram_gb = MIN_FREE_RAM_GB,
       gpu_memory_fraction = 9 / 10,
       max_duration_seconds = 180,
       max_batch_size = 1,
       offload_to_cpu = True,
       offload_dit_to_cpu = True,
       enable_lm = False,
       aggressive_gc = True,
       clear_cuda_cache = True,
       pre_check_memory = True,
       warning_threshold_gb = 6,
       critical_threshold_gb = 4 \<rparr>"

text \<open>
  \<^verbatim>\<open>MemoryConfig.__post_init__\<close>, run by the generated constructor on the fields the
  caller passed (\<open>c\<close>); it reads the memory once.
\<close>

definition post_init :: "MemoryConfig \<Rightarrow> host \<Rightarrow> MemoryConfig \<times> host" where
  "post_init c h =
     (let (mem_info, h1) = get_system_memory_info h;
          total_ram = total_gb mem_info;
          available_ram = available_gb mem_info;
          max_allowed = total_ram - min_free_ram_gb c;
          c1 = (if max_memory_gb c > max_allowed then c\<lparr>max_memory_gb := max_allowed\<rparr> else c);
          c2 = (if available_ram < warning_threshold_gb c1
                then c1\<lparr>max_memory_gb := min (max_memory_gb c1) 2,
                        max_duration_seconds := min (max_duration_seconds c1) 60,
                        enable_lm := False\<rparr>
                else c1)
      in (c2\<lparr>max_batch_size := 1, offload_to_cpu := True, offload_dit_to_cpu := True\<rparr>, h1))"

subsection \<open>MemoryManager\<close>

text \<open>
  The fields of the manager that the modelled methods read or write:
  \<^verbatim>\<open>self.config\<close> and \<^verbatim>\<open>self._generation_count\<close>.
\<close>

record MemoryManager =
  config :: MemoryConfig
  mm_generation_count :: int

text \<open>
  The dictionary of \<^verbatim>\<open>get_current_memory_usage\<close>. Its process and GPU entries come from
  other telemetry calls and no modelled method reads them, so the model keeps the four
  RAM entries, copied from one reading of \<^verbatim>\<open>get_system_memory_info\<close>.
\<close>

record usage =
  ram_total_gb :: real
  ram_used_gb :: real
  ram_available_gb :: real
  ram_free_gb :: real

definition get_current_memory_usage :: "host \<Rightarrow> usage \<times> host" where
  "get_current_memory_usage h =
     (let (mem_info, h1) = get_system_memory_info h
      in (\<lparr> ram_total_gb = total_gb mem_info,
            ram_used_gb = used_gb mem_info,
            ram_available_gb = available_gb mem_info,
            ram_free_gb = free_gb mem_info \<rparr>, h1))"

text \<open>
  The messages of \<^verbatim>\<open>can_generate\<close> are f-strings; each constructor stands for one of
  them and carries the values the f-string interpolates.
\<close>

datatype message =
    Blocked real real             \<comment> \<open>\<^verbatim>\<open>BLOCKED: Only {available}GB RAM available. Need at least {min_free_ram_gb}GB free. ...\<close>\<close>
  | WouldLeaveLess real real real \<comment> \<open>\<^verbatim>\<open>Generation requires ~{estimated_memory_gb}GB but only {available}GB available. Would leave less than {min_free_ram_gb}GB free. ...\<close>\<close>
  | CleanupPerformed              \<comment> \<open>"Memory was low, cleanup performed. Proceeding with caution."\<close>
  | CriticalShortage              \<comment> \<open>"Critical memory shortage. Please restart the application."\<close>
  | LowMemoryWarning real         \<comment> \<open>"Low memory warning: {available}GB available"\<close>
  | NoMessage                     \<comment> \<open>the empty string\<close>

definition MemoryManager_can_generate ::
  "MemoryManager \<Rightarrow> real \<Rightarrow> host \<Rightarrow> (bool \<times> message) \<times> host" where
  "MemoryManager_can_generate self estimated_memory_gb h =
     (let (usage, h1) = get_current_memory_usage h;
          available = ram_available_gb usage
      in if available < min_free_ram_gb (config self)
         then ((False, Blocked available (min_free_ram_gb (config self))), h1)
         else let remaining_after = available - estimated_memory_gb
              in if remaining_after < min_free_ram_gb (config self)
                 then ((False, WouldLeaveLess estimated_memory_gb available
                                  (min_free_ram_gb (config self))), h1)
                 else if available < critical_threshold_gb (config self)
                 then (let (ok, h2) = emergency_memory_cleanup h1
                       in if ok then ((True, CleanupPerformed), h2)
                          else ((False, CriticalShortage), h2))
                 else if available < warning_threshold_gb (config self)
                 then ((True, LowMemoryWarning available), h1)
                 else ((True, NoMessage), h1))"

text \<open>
  \<^verbatim>\<open>validate_generation_params\<close>. The third component is the list \<^verbatim>\<open>warnings\<close>, which
  the source joins with " | " into one string.
\<close>

datatype param_warning =
    DurationClamped real int real  \<comment> \<open>\<^verbatim>\<open>Duration {duration}s -> {max_duration}s (memory: {available}GB free)\<close>\<close>
  | BatchClamped int               \<comment> \<open>\<^verbatim>\<open>Batch size {batch_size} -> 1 (memory safety)\<close>\<close>

definition validate_generation_params ::
  "MemoryManager \<Rightarrow> real \<Rightarrow> int \<Rightarrow> host \<Rightarrow> (real \<times> int \<times> param_warning list) \<times> host" where
  "validate_generation_params self duration batch_size h =
     (let (usage, h1) = get_current_memory_usage h;
          available = ram_available_gb usage;
          max_duration = (if available < 6 then 60
                          else if available < 8 then 120
                          else max_duration_seconds (config self));
          (warnings1, duration1) =
             (if duration > real_of_int max_duration
              then ([DurationClamped duration max_duration available], real_of_int max_duration)
              else ([], duration));
          (warnings2, batch_size1) =
             (if batch_size > 1
              then (warnings1 @ [BatchClamped batch_size], 1)
              else (warnings1, batch_size))
      in ((duration1, batch_size1, warnings2), h1))"

text \<open>
  \<^verbatim>\<open>force_memory_cleanup\<close>: nothing happens unless \<^verbatim>\<open>aggressive_gc\<close> is set; otherwise
  garbage is collected, the counter goes up by one and every fifth count runs
  \<^verbatim>\<open>emergency_memory_cleanup\<close>, whose result is dropped.
\<close>

definition force_memory_cleanup :: "MemoryManager \<Rightarrow> host \<Rightarrow> MemoryManager \<times> host" where
  "force_memory_cleanup self h =
     (let h0 = h\<lparr>trace := trace h @ [ForceCleanupCalled]\<rparr>
      in if \<not> aggressive_gc (config self) then (self, h0)
         else let h1 = h0\<lparr>trace := trace h0 @ [GarbageCollected]\<rparr>;
                  self1 = self\<lparr>mm_generation_count := mm_generation_count self + 1\<rparr>
              in if mm_generation_count self1 mod 5 = 0
                 then (self1, snd (emergency_memory_cleanup h1))
                 else (self1, h1))"

text \<open>
  \<^verbatim>\<open>generation_context\<close> together with the \<^verbatim>\<open>with\<close> statement that uses it. The
  protected region is the body of the \<^verbatim>\<open>with\<close>: it may change the manager and the host
  and either returns a value or raises. What the whole statement raises is a
  \<^verbatim>\<open>MemoryError\<close> from the admission check or the exception of the region, which the
  \<^verbatim>\<open>finally\<close> lets through after the cleanup.
\<close>

datatype 'e raised = MemoryError message | Propagated 'e

type_synonym ('e, 'a) region = "MemoryManager \<Rightarrow> host \<Rightarrow> ('e + 'a) \<times> MemoryManager \<times> host"

definition generation_context ::
  "real \<Rightarrow> ('e, 'a) region \<Rightarrow> MemoryManager \<Rightarrow> host \<Rightarrow> ('e raised + 'a) \<times> MemoryManager \<times> host" where
  "generation_context estimated_memory_gb body self h =
     (let ((can_proceed, message), h1) = MemoryManager_can_generate self estimated_memory_gb h
      in if \<not> can_proceed then (Inl (MemoryError message), self, h1)
         else let h2 = h1\<lparr>trace := trace h1 @ [RegionEntered]\<rparr>;
                  (r, self3, h3) = body self h2;
                  (self4, h4) = force_memory_cleanup self3 h3
              in (case r of Inl e \<Rightarrow> (Inl (Propagated e), self4, h4)
                          | Inr v \<Rightarrow> (Inr v, self4, h4)))"

section \<open>The security module: \<^verbatim>\<open>acestep/security.py\<close>\<close>

text \<open>
  A Python string is modelled as a \<^typ>\<open>string\<close> whose characters are code points below
  256. What \<^verbatim>\<open>time.time()\<close> returns at a call is the argument \<open>now\<close> of the model.
\<close>

datatype py_error = IndexError | TypeError

subsection \<open>Strings\<close>

text \<open>
  \<^verbatim>\<open>str.strip()\<close> removes the leading and trailing characters for which
  \<^verbatim>\<open>str.isspace\<close> holds: below 256 these are the code points 9 to 13, 28 to 32, 133
  and 160.
\<close>

definition py_isspace :: "char \<Rightarrow> bool" where
  "py_isspace c =
     (let n = (of_char c :: nat)
      in (9 \<le> n \<and> n \<le> 13) \<or> (28 \<le> n \<and> n \<le> 32) \<or> n = 133 \<or> n = 160)"

definition strip :: "string \<Rightarrow> string" where
  "strip s = rev (dropWhile py_isspace (rev (dropWhile py_isspace s)))"

definition startswith :: "string \<Rightarrow> string \<Rightarrow> bool" where
  "startswith s p = (take (length p) s = p)"

definition is_ascii :: "string \<Rightarrow> bool" where
  "is_ascii s = list_all (\<lambda>c. (of_char c :: nat) < 128) s"

text \<open>
  \<^verbatim>\<open>secrets.compare_digest\<close> on two \<^verbatim>\<open>str\<close> arguments: it raises \<^verbatim>\<open>TypeError\<close>
  unless both are ASCII, and compares them otherwise.
\<close>

definition compare_digest :: "string \<Rightarrow> string \<Rightarrow> py_error + bool" where
  "compare_digest a b = (if is_ascii a \<and> is_ascii b then Inr (a = b) else Inl TypeError)"

text \<open>\<^verbatim>\<open>int(x)\<close> on a float truncates towards zero.\<close>

definition py_int :: "real \<Rightarrow> int" where
  "py_int x = (if x \<ge> 0 then \<lfloor>x\<rfloor> else \<lceil>x\<rceil>)"

subsection \<open>SecurityConfig\<close>

record SecurityConfig =
  auth_enabled :: bool
  auth_username :: string
  auth_password :: string
  api_key :: "string option"
  rate_limit_per_minute :: int
  generation_limit_per_hour :: int
  localhost_only :: bool
  allowed_ips :: "string set"
  blocked_ips :: "string set"
  session_timeout_minutes :: int
  log_access :: bool
  log_auth_failures :: bool

subsection \<open>RateLimiter\<close>

text \<open>
  \<^verbatim>\<open>_requests\<close> is a \<^verbatim>\<open>defaultdict(list)\<close>: a map from identifiers to lists of
  timestamps in which reading a missing key gives the empty list (\<open>dd_get\<close>), and the
  assignment that follows the read stores the key.
\<close>

definition dd_get :: "(string \<rightharpoonup> real list) \<Rightarrow> string \<Rightarrow> real list" where
  "dd_get m k = (case m k of None \<Rightarrow> [] | Some v \<Rightarrow> v)"

record RateLimiter =
  max_requests :: int
  window_seconds :: int
  requests :: "string \<rightharpoonup> real list"

definition RateLimiter_init :: "int \<Rightarrow> int \<Rightarrow> RateLimiter" where
  "RateLimiter_init max_requests0 window_seconds0 =
     \<lparr> max_requests = max_requests0, window_seconds = window_seconds0, requests = Map.empty \<rparr>"

definition is_allowed :: "real \<Rightarrow> string \<Rightarrow> RateLimiter \<Rightarrow> (bool \<times> int) \<times> RateLimiter" where
  "is_allowed now identifier self =
     (let window_start = now - real_of_int (window_seconds self);
          kept = filter (\<lambda>t. t > window_start) (dd_get (requests self) identifier);
          current_count = int (length kept);
          remaining = max_requests self - current_count
      in if current_count \<ge> max_requests self
         then ((False, 0), self\<lparr>requests := (requests self)(identifier \<mapsto> kept)\<rparr>)
         else ((True, remaining - 1),
               self\<lparr>requests := (requests self)(identifier \<mapsto> kept @ [now])\<rparr>))"

definition get_reset_time :: "real \<Rightarrow> string \<Rightarrow> RateLimiter \<Rightarrow> real" where
  "get_reset_time now identifier self =
     (case requests self identifier of
        None \<Rightarrow> 0
      | Some ts \<Rightarrow>
          if ts = [] then 0
          else let oldest = min_list ts;
                   reset_at = oldest + real_of_int (window_seconds self)
               in max 0 (reset_at - now))"

subsection \<open>GenerationLimiter\<close>

text \<open>
  The fields are those of the source; \<open>gen_window_seconds\<close> is its \<^verbatim>\<open>window_seconds\<close>,
  renamed because a \<open>RateLimiter\<close> has a field of that name.
\<close>

record GenerationLimiter =
  max_generations :: int
  gen_window_seconds :: int
  generations :: "string \<rightharpoonup> real list"

definition GenerationLimiter_init :: "int \<Rightarrow> int \<Rightarrow> GenerationLimiter" where
  "GenerationLimiter_init max_generations0 window_hours =
     \<lparr> max_generations = max_generations0, gen_window_seconds = window_hours * 3600,
       generations = Map.empty \<rparr>"

text \<open>
  \<open>LimitReached max m\<close> is the denial message, which names the cap per hour
  (\<^verbatim>\<open>{self.max_generations}/hora\<close>) and asks to try again in \<open>m\<close> minutes
  (\<^verbatim>\<open>Tente novamente em {reset_minutes} minutos.\<close>); \<open>NoQuotaMessage\<close> is the empty string.
\<close>

datatype quota_message = LimitReached int int | NoQuotaMessage

text \<open>
  \<^verbatim>\<open>GenerationLimiter.can_generate\<close>. Reading element 0 of an empty list raises
  \<^verbatim>\<open>IndexError\<close>; the list has been stored by then.
\<close>

definition GenerationLimiter_can_generate ::
  "real \<Rightarrow> string \<Rightarrow> GenerationLimiter
     \<Rightarrow> (py_error + (bool \<times> int \<times> quota_message)) \<times> GenerationLimiter" where
  "GenerationLimiter_can_generate now identifier self =
     (let window_start = now - real_of_int (gen_window_seconds self);
          kept = filter (\<lambda>t. t > window_start) (dd_get (generations self) identifier);
          self1 = self\<lparr>generations := (generations self)(identifier \<mapsto> kept)\<rparr>;
          current_count = int (length kept);
          remaining = max_generations self - current_count
      in if current_count \<ge> max_generations self
         then (case kept of
                 [] \<Rightarrow> (Inl IndexError, self1)
               | t0 # _ \<Rightarrow>
                   let reset_seconds = t0 + real_of_int (gen_window_seconds self) - now;
                       reset_minutes = py_int (reset_seconds / 60) + 1
                   in (Inr (False, 0, LimitReached (max_generations self) reset_minutes), self1))
         else (Inr (True, remaining, NoQuotaMessage), self1))"

definition record_generation :: "real \<Rightarrow> string \<Rightarrow> GenerationLimiter \<Rightarrow> GenerationLimiter" where
  "record_generation now identifier self =
     self\<lparr>generations := (generations self)(identifier \<mapsto> dd_get (generations self) identifier @ [now])\<rparr>"

subsection \<open>Sessions\<close>

record Session =
  session_id :: string
  username :: string
  ip_address :: string
  created_at :: real
  last_activity :: real
  generation_count :: int

record SessionManager =
  timeout_seconds :: int
  sessions :: "string \<rightharpoonup> Session"

definition SessionManager_init :: "int \<Rightarrow> SessionManager" where
  "SessionManager_init timeout_minutes = \<lparr> timeout_seconds = timeout_minutes * 60, sessions = Map.empty \<rparr>"

text \<open>
  \<^verbatim>\<open>create_session\<close>; \<open>token\<close> is what \<^verbatim>\<open>secrets.token_urlsafe(32)\<close> returns at this
  call.
\<close>

definition create_session ::
  "string \<Rightarrow> real \<Rightarrow> string \<Rightarrow> string \<Rightarrow> SessionManager \<Rightarrow> string \<times> SessionManager" where
  "create_session token now username0 ip_address0 self =
     (let session = \<lparr> session_id = token, username = username0, ip_address = ip_address0,
                       created_at = now, last_activity = now, generation_count = 0 \<rparr>
      in (token, self\<lparr>sessions := (sessions self)(token \<mapsto> session)\<rparr>))"

text \<open>
  \<^verbatim>\<open>validate_session\<close>. The session it returns is the object stored in the registry, so
  the new \<^verbatim>\<open>last_activity\<close> is written to both.
\<close>

definition validate_session ::
  "real \<Rightarrow> string \<Rightarrow> SessionManager \<Rightarrow> Session option \<times> SessionManager" where
  "validate_session now sid self =
     (if sid = [] then (None, self)
      else case sessions self sid of
             None \<Rightarrow> (None, self)
           | Some session \<Rightarrow>
               if timeout_seconds self > 0
                  \<and> now - last_activity session > real_of_int (timeout_seconds self)
               then (None, self\<lparr>sessions := (sessions self)(sid := None)\<rparr>)
               else let session1 = session\<lparr>last_activity := now\<rparr>
                    in (Some session1, self\<lparr>sessions := (sessions self)(sid \<mapsto> session1)\<rparr>))"

definition end_session :: "string \<Rightarrow> SessionManager \<Rightarrow> SessionManager" where
  "end_session sid self =
     (if sid \<in> dom (sessions self) then self\<lparr>sessions := (sessions self)(sid := None)\<rparr> else self)"

definition cleanup_expired :: "real \<Rightarrow> SessionManager \<Rightarrow> SessionManager" where
  "cleanup_expired now self =
     (if timeout_seconds self \<le> 0 then self
      else self\<lparr>sessions := (\<lambda>sid. case sessions self sid of
                                       None \<Rightarrow> None
                                     | Some s \<Rightarrow>
                                         if now - last_activity s > real_of_int (timeout_seconds self)
                                         then None else Some s)\<rparr>)"

text \<open>
  The registries the program can build: it starts empty and changes only through the four
  methods. \<^verbatim>\<open>secrets.token_urlsafe(32)\<close> encodes 32 random bytes, so a token is never the
  empty string.
\<close>

inductive reachable :: "SessionManager \<Rightarrow> bool" where
  reach_init: "reachable (SessionManager_init timeout_minutes)"
| reach_create: "reachable sm \<Longrightarrow> token \<noteq> [] \<Longrightarrow> reachable (snd (create_session token now u ip sm))"
| reach_validate: "reachable sm \<Longrightarrow> reachable (snd (validate_session now sid sm))"
| reach_end: "reachable sm \<Longrightarrow> reachable (end_session sid sm)"
| reach_cleanup: "reachable sm \<Longrightarrow> reachable (cleanup_expired now sm)"

subsection \<open>SecurityManager\<close>

datatype access_message =
    AcessoBloqueado          \<comment> \<open>"Acesso bloqueado"\<close>
  | ApenasAcessoLocal        \<comment> \<open>"Apenas acesso local permitido"\<close>
  | IpNaoAutorizado          \<comment> \<open>the message that the IP is not authorised\<close>
  | NoAccessMessage          \<comment> \<open>the empty string\<close>

definition check_ip_access :: "SecurityConfig \<Rightarrow> string \<Rightarrow> bool \<times> access_message" where
  "check_ip_access cfg ip_address0 =
     (let ip = strip ip_address0
      in if ip \<in> blocked_ips cfg then (False, AcessoBloqueado)
         else if localhost_only cfg \<and> ip \<notin> {''127.0.0.1'', ''localhost'', ''::1''}
         then (False, ApenasAcessoLocal)
         else if allowed_ips cfg \<noteq> {} \<and> ip \<notin> allowed_ips cfg
         then (False, IpNaoAutorizado)
         else (True, NoAccessMessage))"

text \<open>
  \<^verbatim>\<open>verify_api_key\<close>. \<^verbatim>\<open>not self.config.api_key\<close> and \<^verbatim>\<open>not provided_key\<close> hold for
  \<^verbatim>\<open>None\<close> and for the empty string.
\<close>

definition falsy :: "string option \<Rightarrow> bool" where
  "falsy k = (case k of None \<Rightarrow> True | Some s \<Rightarrow> s = [])"

definition verify_api_key :: "SecurityConfig \<Rightarrow> string option \<Rightarrow> py_error + bool" where
  "verify_api_key cfg provided_key =
     (if falsy (api_key cfg) then Inr True
      else if falsy provided_key then Inr False
      else let p = the provided_key;
               p1 = (if startswith p ''Bearer '' then drop 7 p else p)
           in compare_digest p1 (the (api_key cfg)))"

section \<open>Concrete inputs\<close>

text \<open>A host with 16 GB whose every reading shows \<open>a\<close> GB available.\<close>

definition steady_host :: "real \<Rightarrow> host" where
  "steady_host a =
     \<lparr> probe = (\<lambda>n. \<lparr> total_gb = 16, available_gb = a, used_gb = 16 - a,
                         percent_used = (16 - a) / 16 * 100, free_gb = a \<rparr>),
       probes = 0, trace = [] \<rparr>"


text \<open>
  A manager holding the default configuration, and one whose critical threshold is raised
  to 8 GB while the floor stays at the default 5 GB.
\<close>

definition default_manager :: MemoryManager where
  "default_manager = \<lparr> config = MemoryConfig_defaults, mm_generation_count = 0 \<rparr>"


text \<open>
  Two protected regions that touch neither the manager nor the host: one returns, one
  raises. The third manager has completed four generations.
\<close>

definition returning_region :: "(unit, unit) region" where
  "returning_region self h = (Inr (), self, h)"

definition raising_region :: "(unit, unit) region" where
  "raising_region self h = (Inl (), self, h)"

definition fourth_run_manager :: MemoryManager where
  "fourth_run_manager = \<lparr> config = MemoryConfig_defaults, mm_generation_count = 4 \<rparr>"

text \<open>
  A registry with a timeout of 60 minutes in which one session was created at time 0.
\<close>

definition one_session_registry :: SessionManager where
  "one_session_registry =
     snd (create_session ''tok'' 0 ''admin'' ''127.0.0.1'' (SessionManager_init 60))"

text \<open>
  The events of an identity that are still inside the window at time \<open>now\<close>: the list
  both limiters keep when they prune.
\<close>

definition live_requests :: "real \<Rightarrow> string \<Rightarrow> RateLimiter \<Rightarrow> real list" where
  "live_requests now identifier rl =
     filter (\<lambda>t. t > now - real_of_int (window_seconds rl)) (dd_get (requests rl) identifier)"

definition live_generations :: "real \<Rightarrow> string \<Rightarrow> GenerationLimiter \<Rightarrow> real list" where
  "live_generations now identifier gl =
     filter (\<lambda>t. t > now - real_of_int (gen_window_seconds gl))
       (dd_get (generations gl) identifier)"

text \<open>
  The reset time as the specification words it: the time until the oldest live event
  ages out, and 0 if there is no live event.
\<close>

definition resetTime_spec :: "real \<Rightarrow> string \<Rightarrow> RateLimiter \<Rightarrow> real" where
  "resetTime_spec now identifier rl =
     (let live = live_requests now identifier rl
      in if live = [] then 0 else min_list live + real_of_int (window_seconds rl) - now)"

text \<open>
  A rate limiter for 5 requests per 60 seconds after requests of \<open>X\<close> at times 0 and 50;
  a rate limiter for 2 requests per hour after requests of \<open>X\<close> at times 0 and 600; a
  generation limiter for 2 generations per hour after generations of \<open>X\<close> were recorded at
  times 0 and 600.
\<close>

definition two_request_limiter :: RateLimiter where
  "two_request_limiter =
     snd (is_allowed 50 ''X'' (snd (is_allowed 0 ''X'' (RateLimiter_init 5 60))))"

definition full_rate_limiter :: RateLimiter where
  "full_rate_limiter =
     snd (is_allowed 600 ''X'' (snd (is_allowed 0 ''X'' (RateLimiter_init 2 3600))))"

definition full_quota_limiter :: GenerationLimiter where
  "full_quota_limiter =
     record_generation 600 ''X'' (record_generation 0 ''X'' (GenerationLimiter_init 2 1))"

text \<open>
  The same two generations recorded while the clock was set back in between, so that the
  later time was stored first.
\<close>

definition clock_set_back_limiter :: GenerationLimiter where
  "clock_set_back_limiter =
     record_generation 0 ''X'' (record_generation 600 ''X'' (GenerationLimiter_init 2 1))"

text \<open>
  The field defaults of \<^verbatim>\<open>SecurityConfig\<close>; a configuration with an allow-list and a
  block-list that share an address; a configuration in localhost-only mode; and an API
  key with a character outside ASCII (the last one is U+00E9).
\<close>

definition SecurityConfig_defaults :: SecurityConfig where
  "SecurityConfig_defaults =
     \<lparr> auth_enabled = True, auth_username = ''admin'', auth_password = ''music2026'',
       api_key = None, rate_limit_per_minute = 30, generation_limit_per_hour = 20,
       localhost_only = False, allowed_ips = {}, blocked_ips = {},
       session_timeout_minutes = 60, log_access = True, log_auth_failures = True \<rparr>"

definition listed_config :: SecurityConfig where
  "listed_config =
     SecurityConfig_defaults\<lparr> allowed_ips := {''10.0.0.1'', ''10.0.0.9''},
                              blocked_ips := {''10.0.0.9''} \<rparr>"

definition local_config :: SecurityConfig where
  "local_config = SecurityConfig_defaults\<lparr> localhost_only := True \<rparr>"

definition accented_key :: string where
  "accented_key = ''cl'' @ [CHR 0xE9]"


section \<open>Admission by free memory\<close>

text \<open>
  Claim C1. When the available memory that \<^verbatim>\<open>can_generate\<close> reads is strictly below the
  configured floor \<^verbatim>\<open>min_free_ram_gb\<close>, the call denies whatever the estimated cost is,
  and its message is the one that names the available memory and the floor it misses.
\<close>

theorem can_generate_denies_below_floor:
  assumes "available_gb (probe h (probes h)) < min_free_ram_gb (config self)"
  shows "fst (MemoryManager_can_generate self estimated_memory_gb h) =
           (False, Blocked (available_gb (probe h (probes h))) (min_free_ram_gb (config self)))"
  using assms
  by (simp add: MemoryManager_can_generate_def get_current_memory_usage_def
        get_system_memory_info_def)

text \<open>
  Claim C1, at the scenario of the specification: floor 5 GB, 4.2 GB available, estimated
  cost 2.0.
\<close>

theorem can_generate_denies_below_floor_witness:
  "available_gb (probe (steady_host (42 / 10)) (probes (steady_host (42 / 10))))
     < min_free_ram_gb (config default_manager)
   \<and> fst (MemoryManager_can_generate default_manager 2 (steady_host (42 / 10)))
       = (False, Blocked (42 / 10) 5)"
  using can_generate_denies_below_floor [of "steady_host (42 / 10)" default_manager 2]
  by (simp add: steady_host_def default_manager_def MemoryConfig_defaults_def MIN_FREE_RAM_GB_def)




section \<open>Clamping the generation parameters\<close>

text \<open>
  The batch size that \<^verbatim>\<open>validate_generation_params\<close> returns is the smaller of its input
  and 1, and a constructed \<^verbatim>\<open>MemoryConfig\<close> always has \<^verbatim>\<open>max_batch_size\<close> 1.
\<close>

lemma validate_generation_params_batch:
  "fst (snd (fst (validate_generation_params self duration batch_size h))) = min batch_size 1"
  by (simp add: validate_generation_params_def get_current_memory_usage_def
        get_system_memory_info_def Let_def split: prod.splits)

lemma post_init_max_batch_size: "max_batch_size (fst (post_init c h)) = 1"
  by (simp add: post_init_def get_system_memory_info_def Let_def split: prod.splits)

text \<open>
  Claim C3 says that the returned batch size is 1 for every input. For the input 0 the
  test \<^verbatim>\<open>batch_size > 1\<close> fails, the assignment under it does not run, and the method
  returns 0, whatever the manager, the duration and the host are.
\<close>

theorem validate_generation_params_batch_zero:
  "fst (snd (fst (validate_generation_params self duration 0 h))) = 0"
  by (simp add: validate_generation_params_def get_current_memory_usage_def
        get_system_memory_info_def Let_def split: prod.splits)

section \<open>The protected region\<close>

text \<open>The admission check adds nothing to the trace but emergency cleanups.\<close>

lemma can_generate_trace:
  "MemoryManager_can_generate self est h = ((ok, msg), h1) \<Longrightarrow>
     \<exists>es. trace h1 = trace h @ es \<and> set es \<subseteq> {EmergencyCleanup}"
  by (auto simp: MemoryManager_can_generate_def get_current_memory_usage_def
        get_system_memory_info_def emergency_memory_cleanup_def Let_def split: if_splits)

text \<open>What one call of \<^verbatim>\<open>force_memory_cleanup\<close> does to the trace and to the counter.\<close>

lemma force_memory_cleanup_effect:
  "force_memory_cleanup self h = (self', h') \<Longrightarrow>
     trace h' = trace h @ ForceCleanupCalled #
        (if aggressive_gc (config self)
         then GarbageCollected #
              (if (mm_generation_count self + 1) mod 5 = 0 then [EmergencyCleanup] else [])
         else [])
     \<and> config self' = config self
     \<and> mm_generation_count self' =
         (if aggressive_gc (config self) then mm_generation_count self + 1
          else mm_generation_count self)"
  by (auto simp: force_memory_cleanup_def emergency_memory_cleanup_def
        get_system_memory_info_def Let_def split: if_splits)

text \<open>
  Claim C4. Let the admission check of \<^verbatim>\<open>generation_context\<close> answer \<open>(ok, msg)\<close>.
  If it denies, the statement raises \<^verbatim>\<open>MemoryError\<close> with that message, the manager is
  unchanged, and neither the protected region nor \<^verbatim>\<open>force_memory_cleanup\<close> has run.
  If it allows, the region runs and, whether it returns or raises (\<open>r\<close>), its outcome
  is passed on after \<^verbatim>\<open>force_memory_cleanup\<close> has been called exactly once on the state
  the region left; that call runs the deeper \<^verbatim>\<open>emergency_memory_cleanup\<close> exactly when
  it advances the generation counter (which it does under \<^verbatim>\<open>aggressive_gc\<close>, the
  default) to a multiple of 5.
\<close>

theorem generation_context_cleanup:
  fixes body :: "('e, 'a) region"
  assumes admit: "MemoryManager_can_generate self est h = ((ok, msg), h1)"
      and region: "body self (h1\<lparr>trace := trace h1 @ [RegionEntered]\<rparr>) = (r, self3, h3)"
      and result: "generation_context est body self h = (res, self4, h4)"
  shows "(\<not> ok \<longrightarrow>
            res = Inl (MemoryError msg) \<and> self4 = self \<and> h4 = h1
            \<and> RegionEntered \<notin> set (drop (length (trace h)) (trace h4))
            \<and> ForceCleanupCalled \<notin> set (drop (length (trace h)) (trace h4)))
       \<and> (ok \<longrightarrow>
            res = (case r of Inl e \<Rightarrow> Inl (Propagated e) | Inr v \<Rightarrow> Inr v)
            \<and> (self4, h4) = force_memory_cleanup self3 h3
            \<and> count_list (drop (length (trace h3)) (trace h4)) ForceCleanupCalled = 1
            \<and> (EmergencyCleanup \<in> set (drop (length (trace h3)) (trace h4)) \<longleftrightarrow>
                 aggressive_gc (config self3) \<and> (mm_generation_count self3 + 1) mod 5 = 0)
            \<and> mm_generation_count self4 =
                 (if aggressive_gc (config self3) then mm_generation_count self3 + 1
                  else mm_generation_count self3))"
proof (cases ok)
  case False
  from can_generate_trace [OF admit] obtain es
    where es: "trace h1 = trace h @ es" "set es \<subseteq> {EmergencyCleanup}" by blast
  from False admit result have "res = Inl (MemoryError msg)" "self4 = self" "h4 = h1"
    by (simp_all add: generation_context_def)
  moreover from es have "RegionEntered \<notin> set es" "ForceCleanupCalled \<notin> set es" by auto
  ultimately show ?thesis using False es by simp
next
  case True
  obtain s' h' where fc: "force_memory_cleanup self3 h3 = (s', h')"
    by (cases "force_memory_cleanup self3 h3")
  from True admit region result fc
  have res: "res = (case r of Inl e \<Rightarrow> Inl (Propagated e) | Inr v \<Rightarrow> Inr v)"
    and eq: "self4 = s'" "h4 = h'"
    by (auto simp: generation_context_def split: sum.splits)
  from force_memory_cleanup_effect [OF fc] eq
  have tr: "trace h4 = trace h3 @ ForceCleanupCalled #
        (if aggressive_gc (config self3)
         then GarbageCollected #
              (if (mm_generation_count self3 + 1) mod 5 = 0 then [EmergencyCleanup] else [])
         else [])"
    and cnt: "mm_generation_count self4 =
         (if aggressive_gc (config self3) then mm_generation_count self3 + 1
          else mm_generation_count self3)"
    by simp_all
  have fc': "(self4, h4) = force_memory_cleanup self3 h3" using fc eq by simp
  show ?thesis using True res fc' cnt by (simp add: tr)
qed

text \<open>
  Claim C4 at two entries. With 4.2 GB available the default manager is denied: the
  statement raises \<^verbatim>\<open>MemoryError\<close>, the manager is as before and the region was not
  entered. With 9 GB available a manager that has counted four generations is admitted,
  the region raises, the exception comes out, \<^verbatim>\<open>force_memory_cleanup\<close> has run once, the
  counter is 5 and the emergency cleanup has run.
\<close>

lemmas memory_defs =
  generation_context_def MemoryManager_can_generate_def get_current_memory_usage_def
  get_system_memory_info_def emergency_memory_cleanup_def steady_host_def
  force_memory_cleanup_def fourth_run_manager_def default_manager_def
  MemoryConfig_defaults_def MIN_FREE_RAM_GB_def raising_region_def returning_region_def

theorem generation_context_cleanup_witness:
  "fst (generation_context 2 returning_region default_manager (steady_host (42 / 10)))
      = Inl (MemoryError (Blocked (42 / 10) 5))
   \<and> fst (snd (generation_context 2 returning_region default_manager (steady_host (42 / 10))))
      = default_manager
   \<and> RegionEntered \<notin> set (trace (snd (snd
        (generation_context 2 returning_region default_manager (steady_host (42 / 10))))))
   \<and> fst (generation_context 2 raising_region fourth_run_manager (steady_host 9))
      = Inl (Propagated ())
   \<and> count_list (trace (snd (snd
        (generation_context 2 raising_region fourth_run_manager (steady_host 9)))))
        ForceCleanupCalled = 1
   \<and> EmergencyCleanup \<in> set (trace (snd (snd
        (generation_context 2 raising_region fourth_run_manager (steady_host 9)))))
   \<and> mm_generation_count (fst (snd
        (generation_context 2 raising_region fourth_run_manager (steady_host 9)))) = 5"
proof -
  let ?d = "steady_host (42 / 10)"
  let ?a = "steady_host 9"
  have d1: "MemoryManager_can_generate default_manager 2 ?d
              = ((False, Blocked (42 / 10) 5), ?d\<lparr>probes := 1\<rparr>)"
    by (simp add: memory_defs)
  have d2: "returning_region default_manager
              (?d\<lparr>probes := 1\<rparr>\<lparr>trace := trace (?d\<lparr>probes := 1\<rparr>) @ [RegionEntered]\<rparr>)
              = (Inr (), default_manager, ?d\<lparr>probes := 1, trace := [RegionEntered]\<rparr>)"
    by (simp add: memory_defs)
  have d3: "generation_context 2 returning_region default_manager ?d
              = (Inl (MemoryError (Blocked (42 / 10) 5)), default_manager, ?d\<lparr>probes := 1\<rparr>)"
    by (simp add: memory_defs)
  have a1: "MemoryManager_can_generate fourth_run_manager 2 ?a
              = ((True, NoMessage), ?a\<lparr>probes := 1\<rparr>)"
    by (simp add: memory_defs)
  have a2: "raising_region fourth_run_manager
              (?a\<lparr>probes := 1\<rparr>\<lparr>trace := trace (?a\<lparr>probes := 1\<rparr>) @ [RegionEntered]\<rparr>)
              = (Inl (), fourth_run_manager, ?a\<lparr>probes := 1, trace := [RegionEntered]\<rparr>)"
    by (simp add: memory_defs)
  have a3: "generation_context 2 raising_region fourth_run_manager ?a
              = (Inl (Propagated ()), fourth_run_manager\<lparr>mm_generation_count := 5\<rparr>,
                 ?a\<lparr>probes := 2,
                    trace := [RegionEntered, ForceCleanupCalled, GarbageCollected,
                              EmergencyCleanup]\<rparr>)"
    by (simp add: memory_defs)
  have evaluated: ?thesis
    unfolding d3 a3 by (simp add: steady_host_def)
  from generation_context_cleanup [OF d1 d2 d3] generation_context_cleanup [OF a1 a2 a3]
  show ?thesis
    by - (rule evaluated)
qed

section \<open>Sessions with sliding expiry\<close>

text \<open>No registry the program builds has a session under the empty id.\<close>

lemma reachable_no_empty_id: "reachable sm \<Longrightarrow> sessions sm [] = None"
  by (induction rule: reachable.induct)
     (auto simp: SessionManager_init_def create_session_def validate_session_def
        end_session_def cleanup_expired_def Let_def split: option.splits if_splits)

text \<open>
  Claim C5. On every registry the program can build, for every id and time,
  \<^verbatim>\<open>validate_session\<close> returns a session exactly when the id is in the registry and
  either the timeout is not positive or the time since the session's last activity is at
  most the timeout. When it returns the session, the session carries the current time as
  its last activity, in the result and in the registry; when the session has expired, the
  result is absent and the record is gone from the registry.
\<close>

theorem validate_session_sliding:
  assumes "reachable sm"
  shows "(fst (validate_session now sid sm) \<noteq> None \<longleftrightarrow>
            (\<exists>s. sessions sm sid = Some s
                 \<and> (timeout_seconds sm \<le> 0
                      \<or> now - last_activity s \<le> real_of_int (timeout_seconds sm))))
       \<and> (\<forall>s. sessions sm sid = Some s \<longrightarrow>
             validate_session now sid sm =
               (if timeout_seconds sm \<le> 0
                   \<or> now - last_activity s \<le> real_of_int (timeout_seconds sm)
                then (Some (s\<lparr>last_activity := now\<rparr>),
                      sm\<lparr>sessions := (sessions sm)(sid \<mapsto> s\<lparr>last_activity := now\<rparr>)\<rparr>)
                else (None, sm\<lparr>sessions := (sessions sm)(sid := None)\<rparr>)))"
proof -
  from assms have ne: "sessions sm [] = None" by (rule reachable_no_empty_id)
  show ?thesis
  proof (cases "sid = []")
    case True
    with ne show ?thesis by (simp add: validate_session_def)
  next
    case False
    then show ?thesis
      by (auto simp: validate_session_def Let_def split: option.splits)
  qed
qed

text \<open>
  Claim C5 at the scenario of the specification, with a timeout of 60 minutes and a
  session last active at time 0: validating after 59 minutes succeeds and sets the last
  activity to that time; validating 60 minutes after that succeeds again; validating the
  original registry after 61 minutes returns nothing and leaves the registry empty.
\<close>

theorem validate_session_sliding_witness:
  "reachable one_session_registry
   \<and> fst (validate_session 3540 ''tok'' one_session_registry)
       = Some \<lparr> session_id = ''tok'', username = ''admin'', ip_address = ''127.0.0.1'',
                created_at = 0, last_activity = 3540, generation_count = 0 \<rparr>
   \<and> fst (validate_session 7140 ''tok'' (snd (validate_session 3540 ''tok'' one_session_registry)))
       \<noteq> None
   \<and> validate_session 3660 ''tok'' one_session_registry
       = (None, one_session_registry\<lparr>sessions := Map.empty\<rparr>)"
proof -
  have r: "reachable one_session_registry"
    unfolding one_session_registry_def by (rule reach_create [OF reach_init]) simp
  have r2: "reachable (snd (validate_session 3540 ''tok'' one_session_registry))"
    by (rule reach_validate [OF r])
  have s: "sessions one_session_registry ''tok''
             = Some \<lparr> session_id = ''tok'', username = ''admin'', ip_address = ''127.0.0.1'',
                created_at = 0, last_activity = 0, generation_count = 0 \<rparr>"
    by (simp add: one_session_registry_def create_session_def SessionManager_init_def)
  have t: "timeout_seconds one_session_registry = 3600"
    by (simp add: one_session_registry_def create_session_def SessionManager_init_def)
  have m: "(sessions one_session_registry)(''tok'' := None) = Map.empty"
    by (simp add: one_session_registry_def create_session_def SessionManager_init_def)
  from validate_session_sliding [OF r, of 3540 "''tok''"]
       validate_session_sliding [OF r2, of 7140 "''tok''"]
       validate_session_sliding [OF r, of 3660 "''tok''"]
  show ?thesis using r s t m
    by (simp add: validate_session_def)
qed

section \<open>The two sliding-window limiters\<close>

lemma two_request_store: "requests two_request_limiter ''X'' = Some [0, 50]"
  by (simp add: two_request_limiter_def is_allowed_def RateLimiter_init_def dd_get_def Let_def)

lemma two_request_window: "window_seconds two_request_limiter = 60"
  by (simp add: two_request_limiter_def is_allowed_def RateLimiter_init_def dd_get_def Let_def)

lemma full_rate_fields:
  "requests full_rate_limiter = [''X'' \<mapsto> [0, 600]]"
  "max_requests full_rate_limiter = 2"
  "window_seconds full_rate_limiter = 3600"
  by (simp_all add: full_rate_limiter_def is_allowed_def RateLimiter_init_def dd_get_def Let_def)

lemma full_quota_fields:
  "generations full_quota_limiter = [''X'' \<mapsto> [0, 600]]"
  "max_generations full_quota_limiter = 2"
  "gen_window_seconds full_quota_limiter = 3600"
  by (simp_all add: full_quota_limiter_def record_generation_def GenerationLimiter_init_def
        dd_get_def)

subsection \<open>The quota check against the rate window\<close>

text \<open>
  Claim C6 as stated fails. With a cap of one generation per hour, a first check for
  \<open>X\<close> at time 0 is allowed, and so is a second check one second later, again with one
  generation remaining: the check records nothing. The rate limiter with the same cap
  and window allows the first call with 0 remaining and denies the second.
\<close>

theorem quota_check_counterexample:
  "fst (GenerationLimiter_can_generate 0 ''X'' (GenerationLimiter_init 1 1))
      = Inr (True, 1, NoQuotaMessage)
   \<and> fst (GenerationLimiter_can_generate 1 ''X''
            (snd (GenerationLimiter_can_generate 0 ''X'' (GenerationLimiter_init 1 1))))
      = Inr (True, 1, NoQuotaMessage)
   \<and> fst (is_allowed 0 ''X'' (RateLimiter_init 1 3600)) = (True, 0)
   \<and> fst (is_allowed 1 ''X'' (snd (is_allowed 0 ''X'' (RateLimiter_init 1 3600)))) = (False, 0)"
  by (simp add: GenerationLimiter_can_generate_def GenerationLimiter_init_def is_allowed_def
        RateLimiter_init_def dd_get_def Let_def)

text \<open>
  Claim C6, amended. Take a generation limiter and a rate limiter with the same history,
  the same positive cap and the same window, and check the same identity at the same
  time. Both prune the history alike and take the same decision. When they allow, the
  quota check reports one more remaining than the rate limiter, stores only the pruned
  history (so checking again at once gives the same answer), and it is
  \<^verbatim>\<open>record_generation\<close> that adds the event the rate limiter has added by itself. When
  they deny, both report 0 remaining, leave the same history, and the quota check adds
  its message.
\<close>

theorem quota_check_refines_rate_window:
  assumes same: "generations gl = requests rl" "max_generations gl = max_requests rl"
                "gen_window_seconds gl = window_seconds rl"
      and pos: "0 < max_generations gl"
      and rate: "is_allowed now identifier rl = ((allowed, remaining), rl')"
      and quota: "GenerationLimiter_can_generate now identifier gl = (res, gl')"
  shows "(allowed \<longrightarrow>
            res = Inr (True, remaining + 1, NoQuotaMessage)
            \<and> generations gl' identifier = Some (live_generations now identifier gl)
            \<and> fst (GenerationLimiter_can_generate now identifier gl') = res
            \<and> generations (record_generation now identifier gl') = requests rl')
       \<and> (\<not> allowed \<longrightarrow>
            (\<exists>m. res = Inr (False, 0, LimitReached (max_generations gl) m))
            \<and> remaining = 0
            \<and> generations gl' = requests rl')"
proof -
  let ?kept = "live_generations now identifier gl"
  have kept: "filter (\<lambda>t. now - real_of_int (window_seconds rl) < t)
                (dd_get (requests rl) identifier) = ?kept"
    using same by (simp add: live_generations_def)
  have idem: "filter (\<lambda>t. now - real_of_int (window_seconds rl) < t) ?kept = ?kept"
    using same by (simp add: live_generations_def)
  show ?thesis
  proof (cases "int (length ?kept) \<ge> max_requests rl")
    case True
    with pos same have "?kept \<noteq> []" by auto
    then obtain t0 ts where c: "?kept = t0 # ts" by (cases ?kept) auto
    from True rate quota same kept c show ?thesis
      by (auto simp: is_allowed_def GenerationLimiter_can_generate_def Let_def)
  next
    case False
    from False rate quota same kept idem show ?thesis
      by (auto simp: is_allowed_def GenerationLimiter_can_generate_def Let_def
            record_generation_def dd_get_def)
  qed
qed

text \<open>
  Claim C6, amended, at two inputs with a cap of 2 per hour: on empty histories at time 0
  the rate limiter allows with 1 remaining and the quota check allows with 2 remaining,
  and recording the generation afterwards gives the history of the rate limiter; on the
  history 0, 600 at time 3000 both deny with 0 remaining.
\<close>

theorem quota_check_refines_rate_window_witness:
  "fst (is_allowed 0 ''X'' (RateLimiter_init 2 3600)) = (True, 1)
   \<and> fst (GenerationLimiter_can_generate 0 ''X'' (GenerationLimiter_init 2 1))
       = Inr (True, 2, NoQuotaMessage)
   \<and> generations (record_generation 0 ''X''
         (snd (GenerationLimiter_can_generate 0 ''X'' (GenerationLimiter_init 2 1))))
       = requests (snd (is_allowed 0 ''X'' (RateLimiter_init 2 3600)))
   \<and> fst (is_allowed 3000 ''X'' full_rate_limiter) = (False, 0)
   \<and> fst (GenerationLimiter_can_generate 3000 ''X'' full_quota_limiter)
       = Inr (False, 0, LimitReached 2 11)"
proof -
  let ?rl = "RateLimiter_init 2 3600" and ?gl = "GenerationLimiter_init 2 1"
  have a1: "generations ?gl = requests ?rl" "max_generations ?gl = max_requests ?rl"
           "gen_window_seconds ?gl = window_seconds ?rl" "0 < max_generations ?gl"
    by (simp_all add: RateLimiter_init_def GenerationLimiter_init_def)
  have a2': "fst (is_allowed 0 ''X'' ?rl) = (True, 1)"
    by (simp add: is_allowed_def RateLimiter_init_def dd_get_def Let_def)
  have a2: "is_allowed 0 ''X'' ?rl = ((True, 1), snd (is_allowed 0 ''X'' ?rl))"
    by (simp add: a2' [symmetric])
  have a3: "GenerationLimiter_can_generate 0 ''X'' ?gl
              = (fst (GenerationLimiter_can_generate 0 ''X'' ?gl),
                 snd (GenerationLimiter_can_generate 0 ''X'' ?gl))"
    by simp
  have b1: "generations full_quota_limiter = requests full_rate_limiter"
           "max_generations full_quota_limiter = max_requests full_rate_limiter"
           "gen_window_seconds full_quota_limiter = window_seconds full_rate_limiter"
           "0 < max_generations full_quota_limiter"
    by (simp_all add: full_rate_fields full_quota_fields)
  have b2': "fst (is_allowed 3000 ''X'' full_rate_limiter) = (False, 0)"
    by (simp add: is_allowed_def full_rate_fields dd_get_def Let_def)
  have b2: "is_allowed 3000 ''X'' full_rate_limiter
              = ((False, 0), snd (is_allowed 3000 ''X'' full_rate_limiter))"
    by (simp add: b2' [symmetric])
  have b3: "GenerationLimiter_can_generate 3000 ''X'' full_quota_limiter
              = (fst (GenerationLimiter_can_generate 3000 ''X'' full_quota_limiter),
                 snd (GenerationLimiter_can_generate 3000 ''X'' full_quota_limiter))"
    by simp
  have m: "fst (GenerationLimiter_can_generate 3000 ''X'' full_quota_limiter)
              = Inr (False, 0, LimitReached 2 11)"
    by (simp add: GenerationLimiter_can_generate_def full_quota_fields dd_get_def Let_def
          py_int_def)
  from quota_check_refines_rate_window [OF a1 a2 a3]
       quota_check_refines_rate_window [OF b1 b2 b3]
  show ?thesis using a2' b2' m by simp
qed

subsection \<open>The reset time of the rate limiter\<close>

text \<open>
  Claim C7 as stated fails. After requests of \<open>X\<close> at times 0 and 50 under a window of
  60 seconds, at time 100 the stored list still holds the stale 0 beside the live 50. The
  oldest live event ages out in 10 seconds, but \<^verbatim>\<open>get_reset_time\<close> takes the minimum
  of the whole stored list and returns 0.
\<close>

theorem get_reset_time_counterexample:
  "live_requests 100 ''X'' two_request_limiter = [50]
   \<and> resetTime_spec 100 ''X'' two_request_limiter = 10
   \<and> get_reset_time 100 ''X'' two_request_limiter = 0"
  by (simp add: live_requests_def resetTime_spec_def get_reset_time_def dd_get_def
        two_request_store two_request_window)

lemma min_list_above:
  "xs \<noteq> [] \<Longrightarrow> \<forall>t \<in> set xs. c < t \<Longrightarrow> (c::real) < min_list xs"
  by (simp add: min_list_Min)

lemma min_list_below:
  "xs \<noteq> [] \<Longrightarrow> \<forall>t \<in> set xs. t \<le> c \<Longrightarrow> min_list xs \<le> (c::real)"
  by (simp add: min_list_Min)

text \<open>
  Claim C7, amended. For every identity and time, \<^verbatim>\<open>get_reset_time\<close> returns the time
  until the oldest live event ages out, and 0 when there is none, provided the stored
  list holds no live event at all (stale entries or not) or holds no stale entry (as it
  does right after \<^verbatim>\<open>is_allowed\<close> has pruned it).
\<close>

theorem get_reset_time_amended:
  assumes "live_requests now identifier rl = []
           \<or> live_requests now identifier rl = dd_get (requests rl) identifier"
  shows "get_reset_time now identifier rl = resetTime_spec now identifier rl"
proof (cases "dd_get (requests rl) identifier = []")
  case True
  then show ?thesis
    by (auto simp: get_reset_time_def resetTime_spec_def live_requests_def dd_get_def
          split: option.splits)
next
  case False
  then obtain ts where ts: "requests rl identifier = Some ts" "ts \<noteq> []"
    by (auto simp: dd_get_def split: option.splits)
  let ?w = "real_of_int (window_seconds rl)"
  from assms show ?thesis
  proof
    assume none: "live_requests now identifier rl = []"
    with ts have "\<forall>t \<in> set ts. t \<le> now - ?w"
      by (auto simp: live_requests_def dd_get_def filter_empty_conv not_less)
    with ts have "min_list ts \<le> now - ?w" by (intro min_list_below) auto
    with ts none show ?thesis
      by (simp add: get_reset_time_def resetTime_spec_def)
  next
    assume all: "live_requests now identifier rl = dd_get (requests rl) identifier"
    with ts have "filter (\<lambda>t. now - ?w < t) ts = ts"
      by (simp add: live_requests_def dd_get_def)
    then have "\<forall>t \<in> set ts. now - ?w < t" by (simp add: filter_id_conv)
    with ts have "now - ?w < min_list ts" by (intro min_list_above) auto
    with ts all show ?thesis
      by (simp add: get_reset_time_def resetTime_spec_def dd_get_def)
  qed
qed

text \<open>
  Claim C7, amended, on the history 0, 50 with a window of 60 seconds: at time 55 both
  events are live and the reset time is 5; at time 200 none is live and it is 0.
\<close>

theorem get_reset_time_amended_witness:
  "live_requests 55 ''X'' two_request_limiter = dd_get (requests two_request_limiter) ''X''
   \<and> get_reset_time 55 ''X'' two_request_limiter = 5
   \<and> live_requests 200 ''X'' two_request_limiter = []
   \<and> get_reset_time 200 ''X'' two_request_limiter = 0"
  using get_reset_time_amended [of 55 "''X''" two_request_limiter]
        get_reset_time_amended [of 200 "''X''" two_request_limiter]
  by (simp add: live_requests_def resetTime_spec_def dd_get_def
        two_request_store two_request_window)

subsection \<open>The retry-after minutes of the quota limiter\<close>

lemma py_int_nonneg: "0 \<le> x \<Longrightarrow> 0 \<le> py_int x"
  by (simp add: py_int_def)

lemma hd_sorted_filter:
  assumes s: "sorted xs" and f: "filter P xs = y # ys"
  shows "y = Min (set (filter P xs))"
proof -
  from s have "sorted (filter P xs)" by (rule sorted_wrt_filter)
  with f have "sorted (y # ys)" by simp
  then have "\<forall>z \<in> set (y # ys). y \<le> z" by auto
  then have "Min (set (y # ys)) = y" by (intro Min_eqI) auto
  with f show ?thesis by simp
qed

text \<open>
  A limiter with a positive cap whose identity has reached the cap returns a denial (it
  does not raise).
\<close>

lemma quota_denies_when_full:
  assumes "0 < max_generations gl"
      and "max_generations gl \<le> int (length (live_generations now identifier gl))"
  shows "\<exists>m. fst (GenerationLimiter_can_generate now identifier gl)
               = Inr (False, 0, LimitReached (max_generations gl) m)"
  using assms
  by (cases "live_generations now identifier gl")
     (auto simp: GenerationLimiter_can_generate_def live_generations_def Let_def)

text \<open>
  Whenever \<^verbatim>\<open>GenerationLimiter.can_generate\<close> returns a denial, the identity has live
  events, the remaining count is 0, and the minute count \<open>m\<close> of the message is
  \<^verbatim>\<open>int(reset_seconds / 60) + 1\<close> for the age-out time of the first live event in
  stored order, which is the oldest one when the history is in time order; \<open>m\<close> is
  strictly positive.
\<close>

lemma returned_denial_minutes_positive:
  assumes "fst (GenerationLimiter_can_generate now identifier gl) = Inr (False, remaining, msg)"
  shows "\<exists>t0 m. live_generations now identifier gl \<noteq> []
            \<and> t0 = hd (live_generations now identifier gl)
            \<and> (sorted (dd_get (generations gl) identifier) \<longrightarrow>
                 t0 = Min (set (live_generations now identifier gl)))
            \<and> m = py_int ((t0 + real_of_int (gen_window_seconds gl) - now) / 60) + 1
            \<and> msg = LimitReached (max_generations gl) m
            \<and> remaining = 0
            \<and> 0 < m"
proof -
  let ?kept = "live_generations now identifier gl"
  from assms obtain t0 ts where c: "?kept = t0 # ts"
    and r: "remaining = 0"
           "msg = LimitReached (max_generations gl)
                    (py_int ((t0 + real_of_int (gen_window_seconds gl) - now) / 60) + 1)"
    by (cases ?kept)
       (auto simp: GenerationLimiter_can_generate_def live_generations_def Let_def
          split: if_splits)
  have "t0 \<in> set ?kept" using c by simp
  then have "now - real_of_int (gen_window_seconds gl) < t0"
    by (simp add: live_generations_def)
  then have "0 \<le> (t0 + real_of_int (gen_window_seconds gl) - now) / 60" by simp
  then have "0 \<le> py_int ((t0 + real_of_int (gen_window_seconds gl) - now) / 60)"
    by (rule py_int_nonneg)
  moreover have "sorted (dd_get (generations gl) identifier) \<longrightarrow> t0 = Min (set ?kept)"
    using c hd_sorted_filter [of "dd_get (generations gl) identifier" _ t0 ts]
    by (auto simp: live_generations_def)
  ultimately show ?thesis using c r by simp
qed

text \<open>
  The history of an identity stays in time order as long as the clock does not run
  backwards between two recordings; the check itself never disturbs the order.
\<close>

lemma record_generation_sorted:
  assumes "sorted (dd_get (generations gl) identifier)"
      and "\<forall>t \<in> set (dd_get (generations gl) identifier). t \<le> now"
  shows "sorted (dd_get (generations (record_generation now identifier gl)) identifier)"
  using assms by (simp add: record_generation_def dd_get_def sorted_append)

lemma can_generate_keeps_sorted:
  assumes "sorted (dd_get (generations gl) i)"
  shows "sorted (dd_get (generations (snd (GenerationLimiter_can_generate now identifier gl))) i)"
proof -
  have "generations (snd (GenerationLimiter_can_generate now identifier gl))
          = (generations gl)(identifier \<mapsto> live_generations now identifier gl)"
    by (simp add: GenerationLimiter_can_generate_def live_generations_def Let_def
          split: list.splits)
  moreover have "sorted (live_generations now identifier gl)" if "i = identifier"
    using assms that unfolding live_generations_def by (simp add: sorted_wrt_filter)
  ultimately show ?thesis using assms by (auto simp: dd_get_def)
qed

text \<open>
  With generations recorded at times 0 and 600 under a cap of 2 per hour, the check at
  time 3000 denies and asks to retry in 11 minutes. Had the clock been set back so that
  600 was stored before 0, the same check would ask for 21 minutes: it reads the first
  stored event, where \<^verbatim>\<open>RateLimiter.get_reset_time\<close> takes the minimum.
\<close>

lemma quota_minutes_examples:
  "fst (GenerationLimiter_can_generate 3000 ''X'' full_quota_limiter)
      = Inr (False, 0, LimitReached 2 11)"
  "fst (GenerationLimiter_can_generate 3000 ''X'' clock_set_back_limiter)
      = Inr (False, 0, LimitReached 2 21)"
  "Min (set (live_generations 3000 ''X'' clock_set_back_limiter)) = 0"
  by (simp_all add: GenerationLimiter_can_generate_def live_generations_def
        full_quota_fields clock_set_back_limiter_def record_generation_def
        GenerationLimiter_init_def dd_get_def Let_def py_int_def)

text \<open>
  Claim C8 says that whenever the identity has \<^verbatim>\<open>max_generations\<close> live events the
  limiter denies with a message whose minute count is strictly positive. With the cap
  set to 0 an identity without any live event has as many live events as the cap; the
  check enters its denying branch, reads element 0 of the empty list there and raises
  \<^verbatim>\<open>IndexError\<close>: no denial and no message is returned, at any time, for any identity
  and any window.
\<close>

theorem quota_check_zero_cap_raises:
  "int (length (live_generations now identifier (GenerationLimiter_init 0 window_hours)))
      = max_generations (GenerationLimiter_init 0 window_hours)
   \<and> fst (GenerationLimiter_can_generate now identifier (GenerationLimiter_init 0 window_hours))
      = Inl IndexError"
  by (simp add: GenerationLimiter_can_generate_def live_generations_def
        GenerationLimiter_init_def dd_get_def Let_def)

section \<open>Access control\<close>

subsection \<open>Addresses\<close>

text \<open>
  Claim C9. For every address, with \<open>ip\<close> the address as \<^verbatim>\<open>check_ip_access\<close> normalises
  it (surrounding whitespace stripped): the call denies if \<open>ip\<close> is in the block-list,
  whatever the allow-list holds; otherwise it denies if localhost-only mode is set and
  \<open>ip\<close> is not a loopback name; otherwise it denies if the allow-list is not empty and
  \<open>ip\<close> is not in it; otherwise it allows.
\<close>

theorem check_ip_access_order:
  "(strip ip_address0 \<in> blocked_ips cfg \<longrightarrow>
       check_ip_access cfg ip_address0 = (False, AcessoBloqueado))
   \<and> (strip ip_address0 \<notin> blocked_ips cfg \<and> localhost_only cfg
        \<and> strip ip_address0 \<notin> {''127.0.0.1'', ''localhost'', ''::1''} \<longrightarrow>
       check_ip_access cfg ip_address0 = (False, ApenasAcessoLocal))
   \<and> (strip ip_address0 \<notin> blocked_ips cfg
        \<and> \<not> (localhost_only cfg
               \<and> strip ip_address0 \<notin> {''127.0.0.1'', ''localhost'', ''::1''})
        \<and> allowed_ips cfg \<noteq> {} \<and> strip ip_address0 \<notin> allowed_ips cfg \<longrightarrow>
       check_ip_access cfg ip_address0 = (False, IpNaoAutorizado))
   \<and> (strip ip_address0 \<notin> blocked_ips cfg
        \<and> \<not> (localhost_only cfg
               \<and> strip ip_address0 \<notin> {''127.0.0.1'', ''localhost'', ''::1''})
        \<and> \<not> (allowed_ips cfg \<noteq> {} \<and> strip ip_address0 \<notin> allowed_ips cfg) \<longrightarrow>
       check_ip_access cfg ip_address0 = (True, NoAccessMessage))"
  by (simp add: check_ip_access_def Let_def)

lemma strip_examples:
  "strip ''10.0.0.9'' = ''10.0.0.9''" "strip ''10.0.0.1'' = ''10.0.0.1''"
  "strip ''10.0.0.7'' = ''10.0.0.7''" "strip '' 127.0.0.1 '' = ''127.0.0.1''"
  by (simp_all add: strip_def py_isspace_def)

text \<open>
  Claim C9 at five inputs: an address on both lists is blocked; in localhost-only mode
  a remote address is refused and the loopback address, here with spaces around it, is
  let in; with an allow-list an address absent from it is refused and a listed one is
  let in.
\<close>

theorem check_ip_access_order_witness:
  "check_ip_access listed_config ''10.0.0.9'' = (False, AcessoBloqueado)
   \<and> ''10.0.0.9'' \<in> allowed_ips listed_config
   \<and> check_ip_access local_config ''10.0.0.1'' = (False, ApenasAcessoLocal)
   \<and> check_ip_access listed_config ''10.0.0.7'' = (False, IpNaoAutorizado)
   \<and> check_ip_access listed_config ''10.0.0.1'' = (True, NoAccessMessage)
   \<and> check_ip_access local_config '' 127.0.0.1 '' = (True, NoAccessMessage)"
  using check_ip_access_order [of "''10.0.0.9''" listed_config]
        check_ip_access_order [of "''10.0.0.1''" local_config]
        check_ip_access_order [of "''10.0.0.7''" listed_config]
        check_ip_access_order [of "''10.0.0.1''" listed_config]
        check_ip_access_order [of "'' 127.0.0.1 ''" local_config]
  by (simp add: strip_examples listed_config_def local_config_def SecurityConfig_defaults_def)

subsection \<open>API keys\<close>

text \<open>
  Without a configured key every provided key passes; with one, a missing key fails; and
  when the configured key is ASCII, a provided key passes exactly when it equals the
  configured key once an initial "Bearer " is removed.
\<close>

lemma verify_api_key_unconfigured:
  "falsy (api_key cfg) \<Longrightarrow> verify_api_key cfg provided_key = Inr True"
  by (simp add: verify_api_key_def)

lemma verify_api_key_missing:
  "\<not> falsy (api_key cfg) \<Longrightarrow> falsy provided_key \<Longrightarrow>
     verify_api_key cfg provided_key = Inr False"
  by (simp add: verify_api_key_def)

lemma verify_api_key_ascii:
  assumes "api_key cfg = Some k" "k \<noteq> []" "is_ascii k" "p \<noteq> []"
  shows "verify_api_key cfg (Some p) = Inr True \<longleftrightarrow>
           (if startswith p ''Bearer '' then drop 7 p else p) = k"
  using assms by (auto simp: verify_api_key_def falsy_def compare_digest_def Let_def)

text \<open>
  Claim C10 says that a provided key is accepted exactly when it equals the configured
  one. When the configured key has a character outside ASCII, presenting that very key
  is not accepted: \<^verbatim>\<open>secrets.compare_digest\<close> raises \<^verbatim>\<open>TypeError\<close>, which
  \<^verbatim>\<open>verify_api_key\<close> does not catch.
\<close>

theorem verify_api_key_non_ascii:
  "verify_api_key (cfg\<lparr>api_key := Some accented_key\<rparr>) (Some accented_key) = Inl TypeError"
  by (simp add: verify_api_key_def falsy_def compare_digest_def is_ascii_def accented_key_def
        startswith_def Let_def)

end
